theory Spec2Isabelle
  imports Complex_Main "HOL-Library.Sublist"
begin

section \<open>The CN616A log viewer: ingestion of the JSONL log into per-zone state\<close>

text \<open>
  A shallow embedding of \<^verbatim>\<open>cn616a_live_plot_new.py\<close>: the functions \<^verbatim>\<open>is_nan\<close>,
  \<^verbatim>\<open>epoch_to_dt_local\<close>, the class \<^verbatim>\<open>ZoneSeries\<close>, and the methods \<^verbatim>\<open>_ensure_zone\<close>,
  \<^verbatim>\<open>_ingest_line\<close>, \<^verbatim>\<open>open_log\<close>, \<^verbatim>\<open>_tail_tick\<close> and \<^verbatim>\<open>ZoneTab.on_clear\<close> of the viewer.
  The Tk widgets and the matplotlib drawing are left out: a tab exists for exactly the
  zones of \<^verbatim>\<open>series_by_zone\<close>, and a redraw changes no series and no status field.

  Strings are byte strings (the UTF-8 text of the log file), so a cursor into the file
  counts bytes.
\<close>

subsection \<open>Python values\<close>

text \<open>
  A Python float. The program never computes with floats: it tests \<^verbatim>\<open>x != x\<close>, tests
  truthiness (zero or not) and stores the value. A finite float is kept by its exact
  value; both zeros are \<open>Finite 0\<close>.
\<close>

datatype pyfloat = Finite rat | PosInf | NegInf | NaN

text \<open>
  What \<^verbatim>\<open>json.loads\<close> returns, which is also what the status fields of a zone hold
  (they are typed \<^verbatim>\<open>Any\<close>). Python's \<^verbatim>\<open>None\<close> is \<open>JNull\<close>. A decoded object is the
  association list of its dict, looked up with \<open>map_of\<close>.
\<close>

datatype json =
    JNull
  | JBool bool
  | JInt int
  | JFloat pyfloat
  | JStr string
  | JArr "json list"
  | JObj "(string \<times> json) list"

type_synonym pydict = "(string \<times> json) list"

text \<open>\<^verbatim>\<open>obj.get(k, d)\<close> and \<^verbatim>\<open>obj.get(k)\<close>.\<close>

definition dict_get_default :: "pydict \<Rightarrow> string \<Rightarrow> json \<Rightarrow> json" where
  "dict_get_default obj k d = (case map_of obj k of None \<Rightarrow> d | Some v \<Rightarrow> v)"

definition dict_get :: "pydict \<Rightarrow> string \<Rightarrow> json" where
  "dict_get obj k = dict_get_default obj k JNull"

text \<open>
  \<^verbatim>\<open>is_nan(x)\<close>: \<^verbatim>\<open>x is None or (isinstance(x, float) and (x != x))\<close>. Nothing in it
  raises, so the \<^verbatim>\<open>except\<close> branch is dead.
\<close>

fun is_nan :: "json \<Rightarrow> bool" where
  "is_nan JNull = True"
| "is_nan (JFloat NaN) = True"
| "is_nan _ = False"

text \<open>Truthiness, as \<^verbatim>\<open>or\<close> tests it; \<open>py_or a b\<close> is \<^verbatim>\<open>a or b\<close>.\<close>

fun truthy :: "json \<Rightarrow> bool" where
  "truthy JNull = False"
| "truthy (JBool b) = b"
| "truthy (JInt i) = (i \<noteq> 0)"
| "truthy (JFloat f) = (f \<noteq> Finite 0)"
| "truthy (JStr s) = (s \<noteq> [])"
| "truthy (JArr xs) = (xs \<noteq> [])"
| "truthy (JObj kvs) = (kvs \<noteq> [])"

definition py_or :: "json \<Rightarrow> json \<Rightarrow> json" where
  "py_or a b = (if truthy a then a else b)"

text \<open>
  \<^verbatim>\<open>isinstance(z, int)\<close>, with the key the value is in \<^verbatim>\<open>series_by_zone\<close>: \<^verbatim>\<open>bool\<close> is a
  subclass of \<^verbatim>\<open>int\<close>, and \<^verbatim>\<open>True\<close> and \<^verbatim>\<open>False\<close> are the dict keys 1 and 0.
\<close>

fun as_int :: "json \<Rightarrow> int option" where
  "as_int (JInt i) = Some i"
| "as_int (JBool b) = Some (if b then 1 else 0)"
| "as_int _ = None"

subsection \<open>The standard library, as a parameter\<close>

text \<open>
  The library functions the program calls are not part of it; the model takes them as a
  record of functions, \<open>None\<close> where the call raises:
  \<^item> \<open>json_loads\<close>: \<^verbatim>\<open>json.loads\<close>;
  \<^item> \<open>float_of_int\<close>, \<open>float_of_str\<close>: \<^verbatim>\<open>float(x)\<close> of an int (OverflowError) and of a
    str (ValueError);
  \<^item> \<open>fromtimestamp\<close>: \<^verbatim>\<open>datetime.fromtimestamp(x, tz=timezone.utc)\<close> followed by
    \<^verbatim>\<open>astimezone\<close>;
  \<^item> \<open>fromisoformat\<close>: \<^verbatim>\<open>datetime.fromisoformat\<close>;
  \<^item> \<open>read_text\<close>: reading bytes of the log file as text (UTF-8, universal newlines):
    the text of the lines read before the read ends, every line end translated to a
    line feed, and whether the read ends by raising (UnicodeDecodeError, OSError) and not
    at the end of the bytes. When it raises, \<^verbatim>\<open>readlines()\<close> returns nothing, while the
    iteration over the file has yielded the lines before;
  \<^item> \<open>re_search_zone\<close>: \<^verbatim>\<open>re.search(r'"zone"\s*:\s*(\d+)', line)\<close>, giving the group
    \<^verbatim>\<open>m.group(1)\<close> of the match, \<open>None\<close> when there is no match;
  \<^item> \<open>int_of_str\<close>: \<^verbatim>\<open>int(s)\<close> of a string, \<open>None\<close> when it raises (ValueError, as on more
    digits than the interpreter converts).
  The type \<open>'dt\<close> is that of \<^verbatim>\<open>datetime\<close> values.
\<close>

record 'dt pylib =
  json_loads :: "string \<Rightarrow> json option"
  float_of_int :: "int \<Rightarrow> pyfloat option"
  float_of_str :: "string \<Rightarrow> pyfloat option"
  fromtimestamp :: "pyfloat \<Rightarrow> 'dt option"
  fromisoformat :: "string \<Rightarrow> 'dt option"
  read_text :: "string \<Rightarrow> string \<times> bool"
  re_search_zone :: "string \<Rightarrow> string option"
  int_of_str :: "string \<Rightarrow> int option"

text \<open>\<^verbatim>\<open>float(x)\<close>; \<open>None\<close> is TypeError, ValueError or OverflowError.\<close>

fun py_float :: "'dt pylib \<Rightarrow> json \<Rightarrow> pyfloat option" where
  "py_float lib JNull = None"
| "py_float lib (JBool b) = Some (Finite (if b then 1 else 0))"
| "py_float lib (JInt i) = float_of_int lib i"
| "py_float lib (JFloat f) = Some f"
| "py_float lib (JStr s) = float_of_str lib s"
| "py_float lib (JArr xs) = None"
| "py_float lib (JObj kvs) = None"

text \<open>\<^verbatim>\<open>epoch_to_dt_local\<close>; its own \<^verbatim>\<open>float(t_epoch_s)\<close> is applied to a float.\<close>

definition epoch_to_dt_local :: "'dt pylib \<Rightarrow> pyfloat \<Rightarrow> 'dt option" where
  "epoch_to_dt_local lib t_epoch_s = fromtimestamp lib t_epoch_s"

subsection \<open>Text\<close>

text \<open>
  The characters that \<^verbatim>\<open>str.strip()\<close> removes, those for which \<^verbatim>\<open>str.isspace()\<close> holds,
  each as its UTF-8 bytes: U+0009 to U+000D, U+001C to U+0020, U+0085, U+00A0, U+1680,
  U+2000 to U+200A, U+2028, U+2029, U+202F, U+205F and U+3000.
\<close>

definition whitespace :: "string list" where
  "whitespace =
     [[CHR 0x09], [CHR 0x0A], [CHR 0x0B], [CHR 0x0C], [CHR 0x0D],
      [CHR 0x1C], [CHR 0x1D], [CHR 0x1E], [CHR 0x1F], [CHR 0x20],
      [CHR 0xC2, CHR 0x85], [CHR 0xC2, CHR 0xA0], [CHR 0xE1, CHR 0x9A, CHR 0x80],
      [CHR 0xE2, CHR 0x80, CHR 0x80], [CHR 0xE2, CHR 0x80, CHR 0x81],
      [CHR 0xE2, CHR 0x80, CHR 0x82], [CHR 0xE2, CHR 0x80, CHR 0x83],
      [CHR 0xE2, CHR 0x80, CHR 0x84], [CHR 0xE2, CHR 0x80, CHR 0x85],
      [CHR 0xE2, CHR 0x80, CHR 0x86], [CHR 0xE2, CHR 0x80, CHR 0x87],
      [CHR 0xE2, CHR 0x80, CHR 0x88], [CHR 0xE2, CHR 0x80, CHR 0x89],
      [CHR 0xE2, CHR 0x80, CHR 0x8A], [CHR 0xE2, CHR 0x80, CHR 0xA8],
      [CHR 0xE2, CHR 0x80, CHR 0xA9], [CHR 0xE2, CHR 0x80, CHR 0xAF],
      [CHR 0xE2, CHR 0x81, CHR 0x9F], [CHR 0xE3, CHR 0x80, CHR 0x80]]"

text \<open>
  \<open>drop_ws ws s\<close> removes from the front of \<open>s\<close> every leading occurrence of a sequence
  of \<open>ws\<close>. \<^verbatim>\<open>line.strip()\<close> removes the whitespace characters from both ends; from the
  end, the byte sequences are matched in reverse, which in UTF-8 text meets whole
  characters only.
\<close>

function drop_ws :: "string list \<Rightarrow> string \<Rightarrow> string" where
  "drop_ws ws s =
     (case find (\<lambda>w. w \<noteq> [] \<and> prefix w s) ws of
        None \<Rightarrow> s
      | Some w \<Rightarrow> drop_ws ws (drop (length w) s))"
  by pat_completeness auto
termination
  by (relation "measure (\<lambda>(ws, s). length s)") (auto simp: find_Some_iff prefix_def)

declare drop_ws.simps [simp del]

definition strip :: "string \<Rightarrow> string" where
  "strip s = rev (drop_ws (map rev whitespace) (rev (drop_ws whitespace s)))"

text \<open>\<open>contains needle hay\<close> is \<^verbatim>\<open>needle in hay\<close>.\<close>

fun contains :: "string \<Rightarrow> string \<Rightarrow> bool" where
  "contains needle [] = (needle = [])"
| "contains needle (c # cs) = (prefix needle (c # cs) \<or> contains needle cs)"

text \<open>The text \<^verbatim>\<open>"type": "telemetry"\<close> that \<^verbatim>\<open>open_log\<close> and \<^verbatim>\<open>_tail_tick\<close> look for.\<close>

definition telemetry_marker :: string where
  \<open>telemetry_marker = ''"type": "telemetry"''\<close>

text \<open>The placeholder of the method and mode fields: an em dash, three bytes in UTF-8.\<close>

definition dash :: string where
  "dash = [CHR 0xE2, CHR 0x80, CHR 0x94]"

text \<open>
  The lines of a text that was read from the file, each with its line feed, the last one
  without when the text does not end in one: what iterating over the file and
  \<^verbatim>\<open>readlines()\<close> yield. The text layer has translated every line end to a line feed
  before.
\<close>

fun split_lines :: "string \<Rightarrow> string list" where
  "split_lines [] = []"
| "split_lines (c # cs) =
     (if c = CHR 0x0A then [c] # split_lines cs
      else (case split_lines cs of [] \<Rightarrow> [[c]] | l # ls \<Rightarrow> (c # l) # ls))"

subsection \<open>Per-zone state\<close>

text \<open>The dataclass \<^verbatim>\<open>ZoneSeries\<close>: the PV trace and the last-known status.\<close>

record 'dt ZoneSeries =
  zone :: int
  t :: "'dt list"
  pv :: "pyfloat list"
  last_pv :: json
  last_sp :: json
  last_out :: json
  last_method :: json
  last_mode :: json
  last_autotune :: json
  last_autotune_sp :: json

text \<open>\<^verbatim>\<open>ZoneSeries(zone=z)\<close>, with the defaults of the dataclass.\<close>

definition ZoneSeries_new :: "int \<Rightarrow> 'dt ZoneSeries" where
  "ZoneSeries_new z =
     \<lparr>zone = z, t = [], pv = [], last_pv = JNull, last_sp = JNull, last_out = JNull,
      last_method = JStr dash, last_mode = JStr dash, last_autotune = JNull,
      last_autotune_sp = JNull\<rparr>"

definition clear_trace :: "'dt ZoneSeries \<Rightarrow> 'dt ZoneSeries" where
  "clear_trace s = s\<lparr>t := [], pv := []\<rparr>"

type_synonym 'dt zones = "int \<rightharpoonup> 'dt ZoneSeries"

text \<open>\<^verbatim>\<open>ZoneTab.on_clear\<close> of the tab of zone \<open>z\<close>; a zone without a tab has no button.\<close>

definition on_clear :: "int \<Rightarrow> 'dt zones \<Rightarrow> 'dt zones" where
  "on_clear z m = (case m z of None \<Rightarrow> m | Some s \<Rightarrow> m(z \<mapsto> clear_trace s))"

definition DEFAULT_ZONES :: "int list" where
  "DEFAULT_ZONES = [1, 2, 3, 4, 5, 6]"

text \<open>\<^verbatim>\<open>_ensure_zone\<close>.\<close>

definition ensure_zone :: "int \<Rightarrow> 'dt zones \<Rightarrow> 'dt zones" where
  "ensure_zone z m = (case m z of Some s \<Rightarrow> m | None \<Rightarrow> m(z \<mapsto> ZoneSeries_new z))"

subsection \<open>Ingesting one line\<close>

text \<open>
  The exceptions that leave \<^verbatim>\<open>_ingest_line\<close>: \<^verbatim>\<open>obj.get\<close> on a decoded value that is
  not a dict, \<^verbatim>\<open>float(pv)\<close> on a value that does not convert, and the lookup
  \<^verbatim>\<open>series_by_zone[z]\<close>. \<open>ReadError\<close> is what a read of the file raises in
  \<^verbatim>\<open>_tail_tick\<close>.
\<close>

datatype error = AttributeError | ConversionError | KeyError | ReadError

text \<open>
  The alias chains of the autotune setpoint: \<^verbatim>\<open>a or b or c or d or e\<close> of an event, and
  \<^verbatim>\<open>a or b or c or s.last_autotune_sp\<close> of a telemetry line.
\<close>

definition event_sp :: "pydict \<Rightarrow> json" where
  "event_sp obj =
     py_or (py_or (py_or (py_or (dict_get obj ''autotune_sp_c'')
                                (dict_get obj ''autotune_setpoint_c''))
                         (dict_get obj ''autotune_setpoint''))
                  (dict_get obj ''sp''))
           (dict_get obj ''setpoint'')"

definition telemetry_sp :: "pydict \<Rightarrow> json \<Rightarrow> json" where
  "telemetry_sp obj prev =
     py_or (py_or (py_or (dict_get obj ''autotune_sp_c'')
                         (dict_get obj ''autotune_setpoint_c''))
                  (dict_get obj ''autotune_setpoint''))
           prev"

text \<open>
  The time of a telemetry line, \<open>None\<close> where the source leaves with \<^verbatim>\<open>return z\<close>:
  \<^verbatim>\<open>t_epoch_s\<close> when it is not \<^verbatim>\<open>None\<close>, else \<^verbatim>\<open>ts\<close> when it is a string.
\<close>

definition resolve_time :: "'dt pylib \<Rightarrow> pydict \<Rightarrow> 'dt option" where
  "resolve_time lib obj =
     (let t_epoch = dict_get obj ''t_epoch_s'' in
      if t_epoch = JNull then
        (case dict_get obj ''ts'' of
           JStr ts \<Rightarrow> fromisoformat lib ts
         | _ \<Rightarrow> None)
      else
        (case py_float lib t_epoch of
           None \<Rightarrow> None
         | Some x \<Rightarrow> epoch_to_dt_local lib x))"

text \<open>
  \<^verbatim>\<open>pv_val = None if is_nan(pv) else float(pv)\<close>: the outer \<open>None\<close> is the exception of
  \<^verbatim>\<open>float\<close>, the inner one the value \<^verbatim>\<open>None\<close>.
\<close>

definition pv_value :: "'dt pylib \<Rightarrow> json \<Rightarrow> pyfloat option option" where
  "pv_value lib x =
     (if is_nan x then Some None
      else (case py_float lib x of None \<Rightarrow> None | Some v \<Rightarrow> Some (Some v)))"

text \<open>
  \<^verbatim>\<open>_ingest_line\<close> from \<^verbatim>\<open>typ = obj.get("type")\<close> on, for a decoded dict. The result is
  the returned zone (or the exception) and the zones as the call leaves them.
\<close>

definition ingest_telemetry ::
  "'dt pylib \<Rightarrow> pydict \<Rightarrow> int \<Rightarrow> 'dt zones \<Rightarrow> (error + int option) \<times> 'dt zones" where
  "ingest_telemetry lib obj z m =
     (let m1 = ensure_zone z m in
      case m1 z of
        None \<Rightarrow> (Inl KeyError, m1)
      | Some s \<Rightarrow>
          (case resolve_time lib obj of
             None \<Rightarrow> (Inr (Some z), m1)
           | Some dt \<Rightarrow>
               (let pv_c = dict_get obj ''pv_c'';
                    sp = dict_get obj ''sp_abs_c'';
                    out = dict_get obj ''output_pct''
                in case pv_value lib pv_c of
                     None \<Rightarrow> (Inl ConversionError, m1)
                   | Some pv_val \<Rightarrow>
                       (let s1 = (case pv_val of
                                    None \<Rightarrow> s
                                  | Some v \<Rightarrow> s\<lparr>t := t s @ [dt], pv := pv s @ [v]\<rparr>);
                            s2 = s1\<lparr>last_pv := pv_c,
                                    last_sp := sp,
                                    last_out := out,
                                    last_method := dict_get_default obj ''method'' (JStr dash),
                                    last_mode := dict_get_default obj ''mode'' (JStr dash),
                                    last_autotune := dict_get_default obj ''autotune'' JNull,
                                    last_autotune_sp := telemetry_sp obj (last_autotune_sp s1)\<rparr>
                        in (Inr (Some z), m1(z \<mapsto> s2))))))"

definition ingest_event :: "pydict \<Rightarrow> 'dt zones \<Rightarrow> (error + int option) \<times> 'dt zones" where
  "ingest_event obj m =
     (case as_int (dict_get obj ''zone'') of
        None \<Rightarrow> (Inr None, m)
      | Some z \<Rightarrow>
          (let m1 = ensure_zone z m;
               sp = event_sp obj
           in if sp \<noteq> JNull then
                (case m1 z of
                   None \<Rightarrow> (Inl KeyError, m1)
                 | Some s \<Rightarrow> (Inr None, m1(z \<mapsto> s\<lparr>last_autotune_sp := sp\<rparr>)))
              else (Inr None, m1)))"

definition ingest_obj ::
  "'dt pylib \<Rightarrow> pydict \<Rightarrow> 'dt zones \<Rightarrow> (error + int option) \<times> 'dt zones" where
  "ingest_obj lib obj m =
     (let typ = dict_get obj ''type'' in
      if typ = JStr ''event'' then ingest_event obj m
      else if typ \<noteq> JStr ''telemetry'' then (Inr None, m)
      else (case as_int (dict_get obj ''zone'') of
              None \<Rightarrow> (Inr None, m)
            | Some z \<Rightarrow> ingest_telemetry lib obj z m))"

text \<open>\<^verbatim>\<open>_ingest_line\<close>.\<close>

definition ingest_line ::
  "'dt pylib \<Rightarrow> string \<Rightarrow> 'dt zones \<Rightarrow> (error + int option) \<times> 'dt zones" where
  "ingest_line lib line m =
     (let line1 = strip line in
      if line1 = [] then (Inr None, m)
      else (case json_loads lib line1 of
              None \<Rightarrow> (Inr None, m)
            | Some (JObj obj) \<Rightarrow> ingest_obj lib obj m
            | Some _ \<Rightarrow> (Inl AttributeError, m)))"

subsection \<open>The viewer: full load and tailing\<close>

datatype status = NoStatus | FileNotFound | FailedToRead | Opened nat nat | TailingError

text \<open>
  The state of \<^verbatim>\<open>CN616ALogViewer\<close>: \<open>tail_fp\<close> says whether \<^verbatim>\<open>_tail_fp\<close> is a file,
  \<open>tail_pos\<close> is the cursor, \<open>status_bar\<close> the last status message (\<open>Opened\<close> with
  the counts \<^verbatim>\<open>lines=\<close> and \<^verbatim>\<open>telemetry=\<close>). The content of the log file, its bytes,
  is an argument of the operations that read it, \<open>None\<close> when the file does not exist;
  the cursor is an offset into these bytes.
\<close>

record 'dt viewer =
  series_by_zone :: "'dt zones"
  tail_fp :: bool
  tail_pos :: nat
  status_bar :: status

definition viewer_init :: "'dt viewer" where
  "viewer_init =
     \<lparr>series_by_zone = map_of (map (\<lambda>z. (z, ZoneSeries_new z)) DEFAULT_ZONES),
      tail_fp = False, tail_pos = 0, status_bar = NoStatus\<rparr>"

text \<open>The reset of one zone at the start of \<^verbatim>\<open>open_log\<close>.\<close>

definition reset_series :: "'dt ZoneSeries \<Rightarrow> 'dt ZoneSeries" where
  "reset_series s =
     (clear_trace s)\<lparr>last_pv := JNull, last_sp := JNull, last_out := JNull,
                     last_method := JStr dash, last_mode := JStr dash,
                     last_autotune := JNull, last_autotune_sp := JNull\<rparr>"

text \<open>
  The loop of \<^verbatim>\<open>open_log\<close> over the lines of the file, with its two counters. An
  exception of \<^verbatim>\<open>_ingest_line\<close> ends it.
\<close>

fun load_loop ::
  "'dt pylib \<Rightarrow> string list \<Rightarrow> nat \<Rightarrow> nat \<Rightarrow> 'dt zones \<Rightarrow> (error + nat \<times> nat) \<times> 'dt zones" where
  "load_loop lib [] n_lines n_tel m = (Inr (n_lines, n_tel), m)"
| "load_loop lib (line # rest) n_lines n_tel m =
     (let n_lines1 = n_lines + 1;
          n_tel1 = (if contains telemetry_marker line then n_tel + 1 else n_tel)
      in case ingest_line lib line m of
           (Inl e, m1) \<Rightarrow> (Inl e, m1)
         | (Inr z, m1) \<Rightarrow> load_loop lib rest n_lines1 n_tel1 m1)"

text \<open>
  \<^verbatim>\<open>open_log\<close>. An exception while loading, of \<^verbatim>\<open>_ingest_line\<close> or of the read after the
  lines it has yielded, is reported and the method returns with the tail file closed;
  otherwise tailing starts from the end of the file.
\<close>

definition open_log :: "'dt pylib \<Rightarrow> string option \<Rightarrow> 'dt viewer \<Rightarrow> 'dt viewer" where
  "open_log lib file st =
     (case file of
        None \<Rightarrow> st\<lparr>status_bar := FileNotFound\<rparr>
      | Some content \<Rightarrow>
          (let m0 = (\<lambda>z. map_option reset_series (series_by_zone st z));
               (text, raised) = read_text lib content
           in case load_loop lib (split_lines text) 0 0 m0 of
                (Inl e, m1) \<Rightarrow>
                  st\<lparr>series_by_zone := m1, tail_fp := False, tail_pos := 0,
                     status_bar := FailedToRead\<rparr>
              | (Inr (n_lines, n_tel), m1) \<Rightarrow>
                  if raised then
                    st\<lparr>series_by_zone := m1, tail_fp := False, tail_pos := 0,
                       status_bar := FailedToRead\<rparr>
                  else
                    st\<lparr>series_by_zone := m1, tail_fp := True, tail_pos := length content,
                       status_bar := Opened n_lines n_tel\<rparr>))"

text \<open>
  The fast zone guess of \<^verbatim>\<open>_tail_tick\<close>: for a line that contains
  \<^verbatim>\<open>"type": "telemetry"\<close>, the \<^verbatim>\<open>int\<close> of the digits that the regular expression finds;
  \<^verbatim>\<open>None\<close> when there is no match or \<^verbatim>\<open>int\<close> raises.
\<close>

definition fast_zone_guess :: "'dt pylib \<Rightarrow> string \<Rightarrow> int option" where
  "fast_zone_guess lib line =
     (if contains telemetry_marker line then
        (case re_search_zone lib line of
           None \<Rightarrow> None
         | Some digits \<Rightarrow> int_of_str lib digits)
      else None)"

text \<open>
  The loop of \<^verbatim>\<open>_tail_tick\<close> over the new lines, collecting \<^verbatim>\<open>zones_touched\<close>. The guess
  is made before the line is ingested and is used only when \<^verbatim>\<open>_ingest_line\<close> returns
  \<^verbatim>\<open>None\<close>.
\<close>

fun tail_loop ::
  "'dt pylib \<Rightarrow> string list \<Rightarrow> int set \<Rightarrow> 'dt zones \<Rightarrow> (error + int set) \<times> 'dt zones" where
  "tail_loop lib [] zones_touched m = (Inr zones_touched, m)"
| "tail_loop lib (line # rest) zones_touched m =
     (let z_guess = fast_zone_guess lib line in
      case ingest_line lib line m of
        (Inl e, m1) \<Rightarrow> (Inl e, m1)
      | (Inr (Some z), m1) \<Rightarrow> tail_loop lib rest (insert z zones_touched) m1
      | (Inr None, m1) \<Rightarrow>
          tail_loop lib rest
            (case z_guess of Some g \<Rightarrow> insert g zones_touched | None \<Rightarrow> zones_touched) m1)"

text \<open>
  \<^verbatim>\<open>_tail_tick\<close> on the current content of the log file. The result is the set of
  zones whose tabs are asked to redraw (\<open>Inl\<close> when an exception ends the tick, which
  is reported in the status bar) and the viewer after the tick. When \<^verbatim>\<open>readlines()\<close>
  raises, the cursor has not been stored yet.
\<close>

definition tail_tick ::
  "'dt pylib \<Rightarrow> string \<Rightarrow> 'dt viewer \<Rightarrow> (error + int set) \<times> 'dt viewer" where
  "tail_tick lib content st =
     (if tail_fp st then
        (let (text, raised) = read_text lib (drop (tail_pos st) content) in
         if raised then (Inl ReadError, st\<lparr>status_bar := TailingError\<rparr>)
         else
           (let new_lines = split_lines text in
            if new_lines \<noteq> [] then
              (let st1 = st\<lparr>tail_pos := length content\<rparr> in
               case tail_loop lib new_lines {} (series_by_zone st1) of
                 (Inl e, m1) \<Rightarrow>
                   (Inl e, st1\<lparr>series_by_zone := m1, status_bar := TailingError\<rparr>)
               | (Inr zones_touched, m1) \<Rightarrow>
                   (Inr zones_touched, st1\<lparr>series_by_zone := m1\<rparr>))
            else (Inr {}, st)))
      else (Inr {}, st))"

text \<open>The operations on a running viewer, and a run of them.\<close>

datatype action =
    IngestLine string
  | ClearTrace int
  | OpenLog "string option"
  | TailTick string

fun apply_action :: "'dt pylib \<Rightarrow> 'dt viewer \<Rightarrow> action \<Rightarrow> 'dt viewer" where
  "apply_action lib st (IngestLine line) =
     st\<lparr>series_by_zone := snd (ingest_line lib line (series_by_zone st))\<rparr>"
| "apply_action lib st (ClearTrace z) =
     st\<lparr>series_by_zone := on_clear z (series_by_zone st)\<rparr>"
| "apply_action lib st (OpenLog file) = open_log lib file st"
| "apply_action lib st (TailTick content) = snd (tail_tick lib content st)"

definition run :: "'dt pylib \<Rightarrow> 'dt viewer \<Rightarrow> action list \<Rightarrow> 'dt viewer" where
  "run lib st acts = foldl (apply_action lib) st acts"

text \<open>Every trace has as many times as values.\<close>

definition series_aligned :: "'dt zones \<Rightarrow> bool" where
  "series_aligned m = (\<forall>z s. m z = Some s \<longrightarrow> length (t s) = length (pv s))"

subsection \<open>Sample inputs\<close>

text \<open>
  Log lines and the dicts \<^verbatim>\<open>json.loads\<close> decodes them to, for running the model. The
  first three are the scenario of the specification; 73.1 is the double nearest to it.
\<close>

definition double_73_1 :: pyfloat where
  "double_73_1 = Finite (2571977599693619 / 35184372088832)"

definition line_tel1 :: string where
  \<open>line_tel1 = ''{"type":"telemetry","zone":1,"t_epoch_s":1700000000,"pv_c":72.5,"sp_abs_c":75.0,"output_pct":40.0,"method":"PID","mode":"AUTO","autotune":false}''\<close>

definition obj_tel1 :: pydict where
  "obj_tel1 =
     [(''type'', JStr ''telemetry''), (''zone'', JInt 1), (''t_epoch_s'', JInt 1700000000),
      (''pv_c'', JFloat (Finite (145 / 2))), (''sp_abs_c'', JFloat (Finite 75)),
      (''output_pct'', JFloat (Finite 40)), (''method'', JStr ''PID''),
      (''mode'', JStr ''AUTO''), (''autotune'', JBool False)]"

definition line_tel2 :: string where
  \<open>line_tel2 = ''{"type":"telemetry","zone":1,"t_epoch_s":1700000010,"pv_c":73.1,"sp_abs_c":75.0,"output_pct":38.0,"method":"PID","mode":"AUTO","autotune":false}''\<close>

definition obj_tel2 :: pydict where
  "obj_tel2 =
     [(''type'', JStr ''telemetry''), (''zone'', JInt 1), (''t_epoch_s'', JInt 1700000010),
      (''pv_c'', JFloat double_73_1), (''sp_abs_c'', JFloat (Finite 75)),
      (''output_pct'', JFloat (Finite 38)), (''method'', JStr ''PID''),
      (''mode'', JStr ''AUTO''), (''autotune'', JBool False)]"

definition line_ev :: string where
  \<open>line_ev = ''{"type":"event","zone":1,"autotune_setpoint_c":80.0}''\<close>

definition obj_ev :: pydict where
  "obj_ev =
     [(''type'', JStr ''event''), (''zone'', JInt 1),
      (''autotune_setpoint_c'', JFloat (Finite 80))]"

text \<open>A telemetry line with a value and no time.\<close>

definition line_no_time :: string where
  \<open>line_no_time = ''{"type": "telemetry", "zone": 1, "pv_c": 72.5, "mode": "AUTO"}''\<close>

definition obj_no_time :: pydict where
  "obj_no_time =
     [(''type'', JStr ''telemetry''), (''zone'', JInt 1),
      (''pv_c'', JFloat (Finite (145 / 2))), (''mode'', JStr ''AUTO'')]"

text \<open>A telemetry line whose first alias of the autotune setpoint is zero.\<close>

definition line_sp_zero :: string where
  \<open>line_sp_zero = ''{"type": "telemetry", "zone": 1, "t_epoch_s": 1700000000, "pv_c": 72.5, "autotune_sp_c": 0, "autotune_setpoint": 9}''\<close>

definition obj_sp_zero :: pydict where
  "obj_sp_zero =
     [(''type'', JStr ''telemetry''), (''zone'', JInt 1), (''t_epoch_s'', JInt 1700000000),
      (''pv_c'', JFloat (Finite (145 / 2))), (''autotune_sp_c'', JInt 0),
      (''autotune_setpoint'', JInt 9)]"

text \<open>A telemetry line with a time and the value NaN, and an event with no alias.\<close>

definition obj_nan :: pydict where
  "obj_nan =
     [(''type'', JStr ''telemetry''), (''zone'', JInt 1), (''t_epoch_s'', JInt 1700000010),
      (''pv_c'', JFloat NaN), (''sp_abs_c'', JFloat (Finite 75)),
      (''output_pct'', JNull), (''method'', JStr ''PID''), (''autotune'', JBool True)]"

text \<open>
  Two telemetry lines cut off in the middle of a write, before and after the zone's
  number; neither is JSON.
\<close>

definition line_cut :: string where
  \<open>line_cut = ''{"type": "telemetry", "zo''\<close>

definition line_cut_zone :: string where
  \<open>line_cut_zone = ''{"type": "telemetry", "zone": 2, "pv_c": 7''\<close>

text \<open>A telemetry line cut off after the first two of the three bytes of an em dash.\<close>

definition bytes_cut_dash :: string where
  \<open>bytes_cut_dash = ''{"type": "telemetry", "mode": "'' @ [CHR 0xE2, CHR 0x80]\<close>

text \<open>
  A sample of the library on these inputs: what CPython answers there, a \<^verbatim>\<open>datetime\<close>
  being written as its POSIX time. Where the sample has no entry it answers \<open>None\<close>;
  no example below asks it there. Bytes read as text are themselves (the examples are
  ASCII without carriage returns), but for the cut em dash, where the read raises.
\<close>

definition sample_json :: "(string \<times> json option) list" where
  "sample_json =
     [(line_tel1, Some (JObj obj_tel1)),
      (line_tel2, Some (JObj obj_tel2)),
      (line_ev, Some (JObj obj_ev)),
      (line_no_time, Some (JObj obj_no_time)),
      (line_sp_zero, Some (JObj obj_sp_zero)),
      (line_cut, None),
      (line_cut_zone, None)]"

definition sample_lib :: "rat pylib" where
  "sample_lib =
     \<lparr>json_loads = (\<lambda>s. case map_of sample_json s of Some r \<Rightarrow> r | None \<Rightarrow> None),
      float_of_int = map_of [(1700000000, Finite 1700000000), (1700000010, Finite 1700000010)],
      float_of_str = (\<lambda>s. None),
      fromtimestamp = map_of [(Finite 1700000000, 1700000000), (Finite 1700000010, 1700000010)],
      fromisoformat = (\<lambda>s. None),
      read_text = (\<lambda>b. if b = bytes_cut_dash then ([], True) else (b, False)),
      re_search_zone =
        (\<lambda>s. case map_of [(line_cut, None), (line_cut_zone, Some ''2'')] s of
               Some r \<Rightarrow> r
             | None \<Rightarrow> None),
      int_of_str = map_of [(''2'', 2)]\<rparr>"

text \<open>The viewer at start-up with a log open for tailing at offset 0.\<close>

definition viewer_tailing :: "'dt viewer" where
  "viewer_tailing = viewer_init\<lparr>tail_fp := True\<rparr>"

section \<open>Properties\<close>

subsection \<open>Auxiliary facts\<close>

lemma ensure_zone_same: "\<exists>s. ensure_zone z m z = Some s"
  by (simp add: ensure_zone_def split: option.split)

lemma ensure_zone_other: "z' \<noteq> z \<Longrightarrow> ensure_zone z m z' = m z'"
  by (simp add: ensure_zone_def split: option.split)

lemma ensure_zone_present: "m z = Some s \<Longrightarrow> ensure_zone z m = m"
  by (simp add: ensure_zone_def)

lemma strip_sample:
  "strip line_tel1 = line_tel1" "strip line_tel2 = line_tel2" "strip line_ev = line_ev"
  "strip line_no_time = line_no_time" "strip line_sp_zero = line_sp_zero"
  "strip line_cut = line_cut" "strip line_cut_zone = line_cut_zone"
  by (simp_all add: strip_def whitespace_def drop_ws.simps line_tel1_def line_tel2_def
      line_ev_def line_no_time_def line_sp_zero_def line_cut_def line_cut_zone_def)

lemma sample_loads:
  "json_loads sample_lib line_tel1 = Some (JObj obj_tel1)"
  "json_loads sample_lib line_tel2 = Some (JObj obj_tel2)"
  "json_loads sample_lib line_ev = Some (JObj obj_ev)"
  "json_loads sample_lib line_no_time = Some (JObj obj_no_time)"
  "json_loads sample_lib line_sp_zero = Some (JObj obj_sp_zero)"
  "json_loads sample_lib line_cut = None"
  "json_loads sample_lib line_cut_zone = None"
  by (simp_all add: sample_lib_def sample_json_def line_tel1_def line_tel2_def line_ev_def
      line_no_time_def line_sp_zero_def line_cut_def line_cut_zone_def)

lemma sample_nonempty:
  "line_tel1 \<noteq> []" "line_tel2 \<noteq> []" "line_ev \<noteq> []" "line_no_time \<noteq> []"
  "line_sp_zero \<noteq> []" "line_cut \<noteq> []" "line_cut_zone \<noteq> []"
  by (simp_all add: line_tel1_def line_tel2_def line_ev_def
      line_no_time_def line_sp_zero_def line_cut_def line_cut_zone_def)

lemma sample_conv:
  "float_of_int sample_lib 1700000000 = Some (Finite 1700000000)"
  "float_of_int sample_lib 1700000010 = Some (Finite 1700000010)"
  "fromtimestamp sample_lib (Finite 1700000000) = Some 1700000000"
  "fromtimestamp sample_lib (Finite 1700000010) = Some 1700000010"
  by (simp_all add: sample_lib_def)

lemma sample_read:
  "read_text sample_lib line_cut = (line_cut, False)"
  "read_text sample_lib (line_cut @ [CHR 0x0A]) = (line_cut @ [CHR 0x0A], False)"
  "read_text sample_lib line_cut_zone = (line_cut_zone, False)"
  "read_text sample_lib bytes_cut_dash = ([], True)"
  by (simp_all add: sample_lib_def line_cut_def line_cut_zone_def bytes_cut_dash_def)

lemma sample_search:
  "re_search_zone sample_lib line_cut = None"
  "re_search_zone sample_lib line_cut_zone = Some ''2''"
  "int_of_str sample_lib ''2'' = Some 2"
  by (simp_all add: sample_lib_def line_cut_def line_cut_zone_def)

lemma zones0_1: "series_by_zone viewer_init 1 = Some (ZoneSeries_new 1)"
  by (simp add: viewer_init_def DEFAULT_ZONES_def)

lemma py_or_cases: "py_or a b = a \<and> truthy a \<or> py_or a b = b"
  by (simp add: py_or_def)

lemma truthy_not_null: "truthy a \<Longrightarrow> a \<noteq> JNull"
  by auto

lemma event_sp_null:
  assumes "dict_get obj ''autotune_sp_c'' = JNull" "dict_get obj ''autotune_setpoint_c'' = JNull"
    "dict_get obj ''autotune_setpoint'' = JNull" "dict_get obj ''sp'' = JNull"
    "dict_get obj ''setpoint'' = JNull"
  shows "event_sp obj = JNull"
  using assms by (simp add: event_sp_def py_or_def)

lemma event_sp_alias:
  "event_sp obj \<in> {dict_get obj ''autotune_sp_c'', dict_get obj ''autotune_setpoint_c'',
      dict_get obj ''autotune_setpoint'', dict_get obj ''sp'', dict_get obj ''setpoint''}"
  by (simp add: event_sp_def py_or_def)


lemma split_lines_Nil [simp]: "split_lines s = [] \<longleftrightarrow> s = []"
  by (cases s) (auto split: list.split)


lemma no_newline_line_cut: "CHR 0x0A \<notin> set line_cut"
  by (simp add: line_cut_def)

lemma length_line_cut: "length line_cut = 25"
  by (simp add: line_cut_def)

lemma marker_line_cut: "contains telemetry_marker line_cut"
  by (simp add: line_cut_def telemetry_marker_def)

lemma split_line_cut: "split_lines line_cut = [line_cut]"
  by (simp add: line_cut_def)

lemma ingest_line_cut: "ingest_line sample_lib line_cut m = (Inr None, m)"
  by (simp add: ingest_line_def strip_sample sample_nonempty sample_loads)


lemma split_line_cut_nl: "split_lines (line_cut @ [CHR 0x0A]) = [line_cut @ [CHR 0x0A]]"
  by (simp add: line_cut_def)

lemma strip_line_cut_nl: "strip (line_cut @ [CHR 0x0A]) = line_cut"
  by (simp add: strip_def whitespace_def drop_ws.simps line_cut_def)

lemma marker_line_cut_nl: "contains telemetry_marker (line_cut @ [CHR 0x0A])"
  by (simp add: line_cut_def telemetry_marker_def)

lemma ingest_line_cut_nl: "ingest_line sample_lib (line_cut @ [CHR 0x0A]) m = (Inr None, m)"
  by (simp add: ingest_line_def strip_line_cut_nl sample_nonempty sample_loads)


subsection \<open>A telemetry line without a time\<close>

text \<open>
  Claim C1: a telemetry message with a valid integer zone whose time resolves neither
  from \<^verbatim>\<open>t_epoch_s\<close> nor from \<^verbatim>\<open>ts\<close> leaves the series unchanged but still overwrites
  the snapshot fields from the message.

  The code leaves \<^verbatim>\<open>_ingest_line\<close> with \<^verbatim>\<open>return z\<close> before it reaches the status
  update: on the sample line, which carries \<^verbatim>\<open>pv_c = 72.5\<close> and no time, the zone is
  returned as touched and every zone is as before, the last PV of zone 1 still
  \<^verbatim>\<open>None\<close>.
\<close>

theorem no_time_keeps_old_snapshot:
  "dict_get obj_no_time ''pv_c'' = JFloat (Finite (145 / 2)) \<and>
   ingest_line sample_lib line_no_time (series_by_zone viewer_init) =
     (Inr (Some 1), series_by_zone viewer_init) \<and>
   map_option last_pv (series_by_zone viewer_init 1) = Some JNull"
  by (simp add: ingest_line_def strip_sample sample_loads sample_nonempty ingest_obj_def obj_no_time_def dict_get_def dict_get_default_def
     ingest_telemetry_def ensure_zone_def zones0_1 resolve_time_def ZoneSeries_new_def)


text \<open>In general: without a time, the call does no more than \<^verbatim>\<open>_ensure_zone\<close>.\<close>

lemma no_time_only_ensures:
  assumes "dict_get obj ''type'' = JStr ''telemetry''"
    and "as_int (dict_get obj ''zone'') = Some z"
    and "resolve_time lib obj = None"
  shows "ingest_obj lib obj m = (Inr (Some z), ensure_zone z m)"
proof -
  obtain s where "ensure_zone z m z = Some s"
    using ensure_zone_same by blast
  with assms show ?thesis
    by (simp add: ingest_obj_def ingest_telemetry_def)
qed

subsection \<open>The aliases of the autotune setpoint\<close>

text \<open>
  Claim C2: the autotune setpoint is resolved by presence checks in priority order; with
  \<^verbatim>\<open>autotune_sp_c = 5\<close> and \<^verbatim>\<open>autotune_setpoint = 9\<close> the stored value is 5, and with
  \<^verbatim>\<open>autotune_sp_c = 0\<close> it is 0, never a fallback alias or the previous value.

  The code chains the aliases with \<^verbatim>\<open>or\<close>, which skips a zero: on the sample line
  with \<^verbatim>\<open>autotune_sp_c = 0\<close> and \<^verbatim>\<open>autotune_setpoint = 9\<close> the stored value is 9.
\<close>

theorem zero_setpoint_skipped:
  "dict_get obj_sp_zero ''autotune_sp_c'' = JInt 0 \<and>
   fst (ingest_line sample_lib line_sp_zero (series_by_zone viewer_init)) = Inr (Some 1) \<and>
   map_option last_autotune_sp
     (snd (ingest_line sample_lib line_sp_zero (series_by_zone viewer_init)) 1) = Some (JInt 9)"
  by (simp add: ingest_line_def strip_sample sample_loads sample_nonempty ingest_obj_def
      obj_sp_zero_def dict_get_def dict_get_default_def ingest_telemetry_def ensure_zone_def
      zones0_1 resolve_time_def ZoneSeries_new_def sample_conv epoch_to_dt_local_def
      pv_value_def telemetry_sp_def py_or_def)

text \<open>The first half of the claim holds: a truthy first alias wins.\<close>

lemma first_alias_wins:
  assumes "truthy (dict_get obj ''autotune_sp_c'')"
  shows "telemetry_sp obj prev = dict_get obj ''autotune_sp_c''"
    and "event_sp obj = dict_get obj ''autotune_sp_c''"
  using assms by (simp_all add: telemetry_sp_def event_sp_def py_or_def)

subsection \<open>A telemetry line whose value is null or NaN\<close>

text \<open>
  Claim C5: a telemetry message with a valid zone and a resolvable time whose \<^verbatim>\<open>pv_c\<close>
  is null or NaN does not extend the zone's series, and overwrites the snapshot fields
  pv, sp_abs, output_pct, method, mode and autotune, the null or NaN pv recorded as it
  is. Here \<open>s0\<close> is the zone's record once \<^verbatim>\<open>_ensure_zone\<close> has run.
\<close>

theorem telemetry_nan_pv:
  assumes ty: "dict_get obj ''type'' = JStr ''telemetry''"
    and zn: "as_int (dict_get obj ''zone'') = Some z"
    and tm: "resolve_time lib obj = Some dt"
    and nan: "dict_get obj ''pv_c'' = JNull \<or> dict_get obj ''pv_c'' = JFloat NaN"
    and s0: "ensure_zone z m z = Some s0"
  shows "\<exists>s'. ingest_obj lib obj m = (Inr (Some z), (ensure_zone z m)(z \<mapsto> s'))
           \<and> t s' = t s0 \<and> pv s' = pv s0
           \<and> last_pv s' = dict_get obj ''pv_c''
           \<and> last_sp s' = dict_get obj ''sp_abs_c''
           \<and> last_out s' = dict_get obj ''output_pct''
           \<and> last_method s' = dict_get_default obj ''method'' (JStr dash)
           \<and> last_mode s' = dict_get_default obj ''mode'' (JStr dash)
           \<and> last_autotune s' = dict_get obj ''autotune''"
proof -
  from nan have pvv: "pv_value lib (dict_get obj ''pv_c'') = Some None"
    by (auto simp: pv_value_def)
  let ?s = "s0\<lparr>last_pv := dict_get obj ''pv_c'',
                last_sp := dict_get obj ''sp_abs_c'',
                last_out := dict_get obj ''output_pct'',
                last_method := dict_get_default obj ''method'' (JStr dash),
                last_mode := dict_get_default obj ''mode'' (JStr dash),
                last_autotune := dict_get obj ''autotune'',
                last_autotune_sp := telemetry_sp obj (last_autotune_sp s0)\<rparr>"
  have "ingest_obj lib obj m = (Inr (Some z), (ensure_zone z m)(z \<mapsto> ?s))"
    using ty zn tm s0 pvv
    by (simp add: ingest_obj_def ingest_telemetry_def Let_def dict_get_def)
  then show ?thesis
    by (intro exI [of _ ?s]) simp
qed


theorem telemetry_nan_pv_witness:
  "\<exists>s'. ingest_obj sample_lib obj_nan (series_by_zone viewer_init) =
          (Inr (Some 1), (series_by_zone viewer_init)(1 \<mapsto> s'))
        \<and> t s' = [] \<and> pv s' = []
        \<and> last_pv s' = JFloat NaN
        \<and> last_sp s' = JFloat (Finite 75)
        \<and> last_out s' = JNull
        \<and> last_method s' = JStr ''PID''
        \<and> last_mode s' = JStr dash
        \<and> last_autotune s' = JBool True"
proof -
  have e: "ensure_zone 1 (series_by_zone viewer_init) = series_by_zone (viewer_init :: rat viewer)"
    by (simp add: ensure_zone_def zones0_1)
  have "resolve_time sample_lib obj_nan = Some 1700000010"
    by (simp add: resolve_time_def obj_nan_def dict_get_def dict_get_default_def sample_conv
        epoch_to_dt_local_def)
  from telemetry_nan_pv [of obj_nan 1 sample_lib 1700000010 "series_by_zone viewer_init"
      "ZoneSeries_new 1", OF _ _ this]
  show ?thesis
    by (simp add: e zones0_1 obj_nan_def dict_get_def dict_get_default_def ZoneSeries_new_def)
qed

subsection \<open>An event\<close>

text \<open>
  Claim C6: an event message with a valid integer zone overwrites the zone's autotune
  setpoint only when the message supplies a present alias value and changes nothing
  else: the series, pv, sp_abs, output_pct, method, mode and autotune stay as they are,
  and an event without any alias field leaves the autotune setpoint at its previous
  value. Here \<open>s0\<close> is the zone's record once \<^verbatim>\<open>_ensure_zone\<close> has run; a changed
  setpoint is the value, not \<^verbatim>\<open>None\<close>, of one of the five alias fields.
\<close>

theorem event_frame:
  assumes ty: "dict_get obj ''type'' = JStr ''event''"
    and zn: "as_int (dict_get obj ''zone'') = Some z"
    and s0: "ensure_zone z m z = Some s0"
  shows "\<exists>s'. ingest_obj lib obj m = (Inr None, (ensure_zone z m)(z \<mapsto> s'))
           \<and> zone s' = zone s0 \<and> t s' = t s0 \<and> pv s' = pv s0
           \<and> last_pv s' = last_pv s0 \<and> last_sp s' = last_sp s0 \<and> last_out s' = last_out s0
           \<and> last_method s' = last_method s0 \<and> last_mode s' = last_mode s0
           \<and> last_autotune s' = last_autotune s0
           \<and> (last_autotune_sp s' = last_autotune_sp s0
                \<or> last_autotune_sp s' \<noteq> JNull
                  \<and> (\<exists>k \<in> set [''autotune_sp_c'', ''autotune_setpoint_c'', ''autotune_setpoint'',
                                 ''sp'', ''setpoint''].
                        dict_get obj k = last_autotune_sp s'))
           \<and> ((\<forall>k \<in> set [''autotune_sp_c'', ''autotune_setpoint_c'', ''autotune_setpoint'',
                           ''sp'', ''setpoint''].
                  dict_get obj k = JNull)
                \<longrightarrow> last_autotune_sp s' = last_autotune_sp s0)"
proof (cases "event_sp obj = JNull")
  case True
  have "ingest_obj lib obj m = (Inr None, (ensure_zone z m)(z \<mapsto> s0))"
    using ty zn s0 True by (simp add: ingest_obj_def ingest_event_def map_upd_triv)
  then show ?thesis
    by (intro exI [of _ s0]) simp
next
  case False
  let ?s = "s0\<lparr>last_autotune_sp := event_sp obj\<rparr>"
  have "ingest_obj lib obj m = (Inr None, (ensure_zone z m)(z \<mapsto> ?s))"
    using ty zn s0 False by (simp add: ingest_obj_def ingest_event_def)
  moreover have "\<exists>k \<in> set [''autotune_sp_c'', ''autotune_setpoint_c'', ''autotune_setpoint'',
                         ''sp'', ''setpoint'']. dict_get obj k = event_sp obj"
    using event_sp_alias [of obj] by auto
  moreover have "(\<forall>k \<in> set [''autotune_sp_c'', ''autotune_setpoint_c'', ''autotune_setpoint'',
                           ''sp'', ''setpoint'']. dict_get obj k = JNull) \<Longrightarrow> False"
    using False event_sp_null [of obj] by simp
  ultimately show ?thesis
    using False by (intro exI [of _ ?s]) auto
qed


theorem event_frame_witness:
  "\<exists>s'. ingest_obj sample_lib obj_ev (series_by_zone viewer_init) =
          (Inr None, (series_by_zone viewer_init)(1 \<mapsto> s'))
        \<and> t s' = [] \<and> pv s' = [] \<and> last_pv s' = JNull \<and> last_mode s' = JStr dash
        \<and> last_autotune_sp s' = JFloat (Finite 80)"
proof -
  have e: "ensure_zone 1 (series_by_zone viewer_init) = series_by_zone (viewer_init :: rat viewer)"
    by (simp add: ensure_zone_def zones0_1)
  have r: "ingest_obj sample_lib obj_ev (series_by_zone viewer_init) =
      (Inr None, (series_by_zone viewer_init)(1 \<mapsto> (ZoneSeries_new 1)\<lparr>last_autotune_sp := JFloat (Finite 80)\<rparr>))"
    by (simp add: ingest_obj_def ingest_event_def obj_ev_def dict_get_def dict_get_default_def
        e zones0_1 event_sp_def py_or_def)
  have a: "dict_get obj_ev ''type'' = JStr ''event''"
    and b: "as_int (dict_get obj_ev ''zone'') = Some 1"
    by (simp_all add: obj_ev_def dict_get_def dict_get_default_def)
  have c: "ensure_zone 1 (series_by_zone viewer_init) 1 = Some (ZoneSeries_new 1 :: rat ZoneSeries)"
    by (simp add: e zones0_1)
  from event_frame [OF a b c, of sample_lib] obtain s' where
    s': "ingest_obj sample_lib obj_ev (series_by_zone viewer_init) =
          (Inr None, (series_by_zone viewer_init)(1 \<mapsto> s'))"
      "t s' = t (ZoneSeries_new 1 :: rat ZoneSeries)" "pv s' = pv (ZoneSeries_new 1 :: rat ZoneSeries)"
      "last_pv s' = last_pv (ZoneSeries_new 1 :: rat ZoneSeries)"
      "last_mode s' = last_mode (ZoneSeries_new 1 :: rat ZoneSeries)"
    unfolding e by blast
  from s'(1) r have "s' = (ZoneSeries_new 1)\<lparr>last_autotune_sp := JFloat (Finite 80)\<rparr>"
    by (metis Pair_inject fun_upd_same option.inject)
  with s' show ?thesis
    by (intro exI [of _ s']) (simp add: ZoneSeries_new_def)
qed


subsection \<open>Clearing a trace\<close>

text \<open>
  Claim C7: clearing the trace of zone \<open>z\<close> empties its series, times and values, and
  leaves every snapshot field of \<open>z\<close> and all state of every other zone unchanged.
\<close>

theorem clear_trace_frame:
  assumes "m z = Some s"
  shows "on_clear z m z = Some (clear_trace s)
       \<and> t (clear_trace s) = [] \<and> pv (clear_trace s) = []
       \<and> zone (clear_trace s) = zone s
       \<and> last_pv (clear_trace s) = last_pv s \<and> last_sp (clear_trace s) = last_sp s
       \<and> last_out (clear_trace s) = last_out s \<and> last_method (clear_trace s) = last_method s
       \<and> last_mode (clear_trace s) = last_mode s
       \<and> last_autotune (clear_trace s) = last_autotune s
       \<and> last_autotune_sp (clear_trace s) = last_autotune_sp s
       \<and> (\<forall>z'. z' \<noteq> z \<longrightarrow> on_clear z m z' = m z')"
  using assms by (simp add: on_clear_def clear_trace_def)

theorem clear_trace_frame_witness:
  "on_clear 1 [1 \<mapsto> (ZoneSeries_new 1)\<lparr>t := [1700000000 :: rat], pv := [Finite (145 / 2)],
                                          last_pv := JFloat (Finite (145 / 2))\<rparr>,
               2 \<mapsto> ZoneSeries_new 2] 1
     = Some ((ZoneSeries_new 1)\<lparr>last_pv := JFloat (Finite (145 / 2))\<rparr>)
   \<and> on_clear 1 [1 \<mapsto> (ZoneSeries_new 1)\<lparr>t := [1700000000 :: rat], pv := [Finite (145 / 2)],
                                          last_pv := JFloat (Finite (145 / 2))\<rparr>,
               2 \<mapsto> ZoneSeries_new 2] 2 = Some (ZoneSeries_new 2)"
  using clear_trace_frame [of "[1 \<mapsto> (ZoneSeries_new 1)\<lparr>t := [1700000000 :: rat],
      pv := [Finite (145 / 2)], last_pv := JFloat (Finite (145 / 2))\<rparr>, 2 \<mapsto> ZoneSeries_new 2]"
      1 "(ZoneSeries_new 1)\<lparr>t := [1700000000 :: rat], pv := [Finite (145 / 2)],
                                          last_pv := JFloat (Finite (145 / 2))\<rparr>"]
  by (simp add: clear_trace_def ZoneSeries_new_def)


subsection \<open>Lines that are skipped, and the counters of a full load\<close>

text \<open>
  Claim C3, as stated: a line that is malformed JSON, or whose type is missing or neither
  \<^verbatim>\<open>"telemetry"\<close> nor \<^verbatim>\<open>"event"\<close>, changes no zone and is counted neither as a line nor
  as telemetry by the full load. The counters do not follow it: \<^verbatim>\<open>open_log\<close> counts
  every line it reads, and counts as telemetry every line whose text contains
  \<^verbatim>\<open>"type": "telemetry"\<close>. A file of one cut-off line, which is not JSON, is reported as
  \<^verbatim>\<open>lines=1 telemetry=1\<close>.
\<close>

theorem skipped_line_counterexample:
  "json_loads sample_lib (strip (line_cut @ [CHR 0x0A])) = None \<and>
   status_bar (open_log sample_lib (Some (line_cut @ [CHR 0x0A])) viewer_init) = Opened 1 1"
  by (simp add: strip_line_cut_nl sample_loads open_log_def sample_read split_line_cut_nl
      marker_line_cut_nl ingest_line_cut_nl)


text \<open>
  Claim C3, amended: a line that \<^verbatim>\<open>json.loads\<close> rejects, or that decodes to an object
  whose type is missing or neither \<^verbatim>\<open>"telemetry"\<close> nor \<^verbatim>\<open>"event"\<close>, leaves every zone's
  series and snapshot unchanged; the full load counts it as a line, and as telemetry
  exactly when its text contains \<^verbatim>\<open>"type": "telemetry"\<close>.
\<close>

theorem skipped_line:
  assumes "json_loads lib (strip line) = None
         \<or> (\<exists>obj. json_loads lib (strip line) = Some (JObj obj)
                \<and> dict_get obj ''type'' \<noteq> JStr ''telemetry''
                \<and> dict_get obj ''type'' \<noteq> JStr ''event'')"
  shows "ingest_line lib line m = (Inr None, m)
       \<and> load_loop lib (line # rest) n_lines n_tel m =
           load_loop lib rest (n_lines + 1)
             (if contains telemetry_marker line then n_tel + 1 else n_tel) m"
proof -
  from assms have "ingest_line lib line m = (Inr None, m)"
    by (auto simp: ingest_line_def ingest_obj_def Let_def)
  then show ?thesis by simp
qed


theorem skipped_line_witness:
  "ingest_line sample_lib (line_cut @ [CHR 0x0A]) (series_by_zone viewer_init) =
     (Inr None, series_by_zone viewer_init)
   \<and> load_loop sample_lib [line_cut @ [CHR 0x0A]] 0 0 (series_by_zone viewer_init) =
     (Inr (1, 1), series_by_zone viewer_init)"
  using skipped_line [of sample_lib "line_cut @ [CHR 0x0A]" "series_by_zone viewer_init" "[]" 0 0]
  by (simp add: strip_line_cut_nl sample_loads marker_line_cut_nl)

subsection \<open>The cursor of the tail\<close>

text \<open>
  Claim C4, as stated: a tail tick moves the cursor only past complete lines, and never
  past an unterminated fragment at the end of the file. The code reads to the end of
  the file with \<^verbatim>\<open>readlines()\<close> and stores \<^verbatim>\<open>tell()\<close>: when the file is one cut-off line
  of 25 bytes without a line feed, the cursor goes from 0 to 25.
\<close>

theorem tail_cursor_counterexample:
  "CHR 0x0A \<notin> set line_cut \<and> tail_pos (viewer_tailing :: rat viewer) = 0 \<and>
   tail_pos (snd (tail_tick sample_lib line_cut viewer_tailing)) = length line_cut \<and>
   length line_cut = 25"
  by (simp add: no_newline_line_cut length_line_cut tail_tick_def viewer_tailing_def
      viewer_init_def sample_read split_line_cut ingest_line_cut fast_zone_guess_def
      split: prod.split sum.split)

text \<open>
  A fragment cut off inside a character is different: the read raises, the tick reports
  a tailing error, and the cursor stays where it was.
\<close>

lemma tail_cursor_undecodable:
  "tail_tick sample_lib bytes_cut_dash viewer_tailing =
     (Inl ReadError, viewer_tailing\<lparr>status_bar := TailingError\<rparr>)"
  by (simp add: tail_tick_def viewer_tailing_def viewer_init_def sample_read)

text \<open>
  Claim C4, amended: after a tail tick, if the tail file is open, the read of the bytes
  beyond the cursor does not raise and yields some text, then the cursor is at the end of
  the file's content, past the last line read even when that line is an unterminated
  fragment; in every other case (the tail file is closed, the read raises, or nothing
  is read) the cursor is where it was.
\<close>

theorem tail_cursor:
  "tail_pos (snd (tail_tick lib content st)) =
     (if tail_fp st
         \<and> \<not> snd (read_text lib (drop (tail_pos st) content))
         \<and> fst (read_text lib (drop (tail_pos st) content)) \<noteq> []
      then length content else tail_pos st)"
  by (auto simp: tail_tick_def Let_def split: prod.split sum.split)

subsection \<open>The zone guessed from the text of a line\<close>

lemma fst_ingest_telemetry:
  "fst (ingest_telemetry lib obj z m) = fst (ingest_telemetry lib obj z m')"
proof -
  obtain s where s: "ensure_zone z m z = Some s" using ensure_zone_same by blast
  obtain s' where s': "ensure_zone z m' z = Some s'" using ensure_zone_same by blast
  show ?thesis
    by (simp add: ingest_telemetry_def s s' Let_def split: option.split)
qed

lemma fst_ingest_event: "fst (ingest_event obj m) = Inr None"
proof (cases "as_int (dict_get obj ''zone'')")
  case None
  then show ?thesis by (simp add: ingest_event_def)
next
  case (Some z)
  obtain s where s: "ensure_zone z m z = Some s" using ensure_zone_same by blast
  with Some show ?thesis by (simp add: ingest_event_def Let_def)
qed

lemma fst_ingest_obj: "fst (ingest_obj lib obj m) = fst (ingest_obj lib obj m')"
  by (simp add: ingest_obj_def Let_def fst_ingest_event fst_ingest_telemetry [of lib obj _ m m']
      split: option.split)

lemma fst_ingest_line: "fst (ingest_line lib line m) = fst (ingest_line lib line m')"
  by (simp add: ingest_line_def Let_def fst_ingest_obj [of lib _ m m']
      split: option.split json.split)

lemma fast_zone_guess_Some:
  "fast_zone_guess lib line = Some g \<longleftrightarrow>
     contains telemetry_marker line
     \<and> (\<exists>digits. re_search_zone lib line = Some digits \<and> int_of_str lib digits = Some g)"
  by (simp add: fast_zone_guess_def split: option.split)

lemma tail_loop_touched:
  assumes "tail_loop lib lines zs m = (Inr touched, m')"
  shows "touched = zs \<union> {g. \<exists>line \<in> set lines.
            fst (ingest_line lib line m0) = Inr (Some g)
          \<or> fst (ingest_line lib line m0) = Inr None \<and> fast_zone_guess lib line = Some g}"
  using assms
proof (induction lines arbitrary: zs m)
  case Nil
  then show ?case by simp
next
  case (Cons line rest)
  obtain r m1 where il: "ingest_line lib line m = (r, m1)" by (cases "ingest_line lib line m")
  have r0: "fst (ingest_line lib line m0) = r"
    using il fst_ingest_line [of lib line m0 m] by simp
  show ?case
  proof (cases r)
    case (Inl e)
    with Cons.prems il show ?thesis by simp
  next
    case (Inr zo)
    show ?thesis
    proof (cases zo)
      case None
      let ?zs = "case fast_zone_guess lib line of Some g \<Rightarrow> insert g zs | None \<Rightarrow> zs"
      from Cons.prems il Inr None have "tail_loop lib rest ?zs m1 = (Inr touched, m')"
        by simp
      from Cons.IH [OF this] r0 Inr None show ?thesis
        by (auto split: option.splits)
    next
      case (Some z)
      from Cons.prems il Inr Some have "tail_loop lib rest (insert z zs) m1 = (Inr touched, m')"
        by simp
      from Cons.IH [OF this] r0 Inr Some show ?thesis
        by auto
    qed
  qed
qed

lemma split_line_cut_zone: "split_lines line_cut_zone = [line_cut_zone]"
  by (simp add: line_cut_zone_def)

lemma ingest_line_cut_zone: "ingest_line sample_lib line_cut_zone m = (Inr None, m)"
  by (simp add: ingest_line_def strip_sample sample_nonempty sample_loads)

lemma marker_line_cut_zone: "contains telemetry_marker line_cut_zone"
  by (simp add: line_cut_zone_def telemetry_marker_def)

lemma tick_line_cut_zone:
  "tail_tick sample_lib line_cut_zone viewer_tailing =
     (Inr {2}, viewer_tailing\<lparr>tail_pos := length line_cut_zone\<rparr>)"
  by (simp add: tail_tick_def viewer_tailing_def viewer_init_def sample_read
      split_line_cut_zone ingest_line_cut_zone fast_zone_guess_def marker_line_cut_zone
      sample_search)

text \<open>
  Claim C9, as stated: in a tail tick, every raw line whose parse-and-apply yields no
  zone but whose text resembles a telemetry line has a zone id extracted from its text
  and added to the touched zones. The scan is guarded: it adds a zone only if the text
  matches \<^verbatim>\<open>"zone"\s*:\s*(\d+)\<close>. A telemetry line cut off before its zone number
  contains \<^verbatim>\<open>"type": "telemetry"\<close>, yields no zone, and the tick touches no zone.
\<close>

theorem tail_guess_counterexample:
  "contains telemetry_marker line_cut
   \<and> fst (ingest_line sample_lib line_cut (series_by_zone viewer_init)) = Inr None
   \<and> fst (tail_tick sample_lib line_cut viewer_tailing) = Inr {}"
  by (simp add: marker_line_cut ingest_line_cut tail_tick_def viewer_tailing_def
      viewer_init_def sample_read split_line_cut fast_zone_guess_def sample_search)

text \<open>
  Claim C9, amended: in a tail tick whose read and whose ingestion of the new lines do
  not raise, the set of touched zones is exactly this: the zones that parse-and-apply
  returns for the new lines, and, for every new line whose parse-and-apply yields no zone
  and whose text contains \<^verbatim>\<open>"type": "telemetry"\<close>, the integer that \<^verbatim>\<open>int\<close> makes of the
  digits of the leftmost match of \<^verbatim>\<open>"zone"\s*:\s*(\d+)\<close> in the text, when the text has a
  match and \<^verbatim>\<open>int\<close> accepts the digits. So a truncated telemetry write marks its zone
  when its zone number is in the text, and a line without a match marks none. (What
  \<^verbatim>\<open>_ingest_line\<close> returns does not depend on the zones, so \<open>m0\<close> is any.)
\<close>

theorem tail_guess_marks_zone:
  assumes "tail_fp st"
    and "read_text lib (drop (tail_pos st) content) = (text, False)"
    and "tail_tick lib content st = (Inr touched, st')"
  shows "touched = {g. \<exists>line \<in> set (split_lines text).
            fst (ingest_line lib line m0) = Inr (Some g)
          \<or> fst (ingest_line lib line m0) = Inr None
            \<and> contains telemetry_marker line
            \<and> (\<exists>digits. re_search_zone lib line = Some digits
                  \<and> int_of_str lib digits = Some g)}"
proof (cases "split_lines text = []")
  case True
  with assms have "touched = {}"
    by (simp add: tail_tick_def)
  with True show ?thesis by simp
next
  case False
  obtain r m1 where tl: "tail_loop lib (split_lines text) {} (series_by_zone st) = (r, m1)"
    by (cases "tail_loop lib (split_lines text) {} (series_by_zone st)")
  from assms False tl have "r = Inr touched"
    by (cases r) (simp_all add: tail_tick_def Let_def)
  with tl have "tail_loop lib (split_lines text) {} (series_by_zone st) = (Inr touched, m1)"
    by simp
  from tail_loop_touched [OF this, of m0] show ?thesis
    by (simp add: fast_zone_guess_Some)
qed

theorem tail_guess_marks_zone_witness:
  "fst (tail_tick sample_lib line_cut_zone viewer_tailing) = Inr {2}
   \<and> {g. \<exists>line \<in> set (split_lines line_cut_zone).
            fst (ingest_line sample_lib line (series_by_zone viewer_init)) = Inr (Some g)
          \<or> fst (ingest_line sample_lib line (series_by_zone viewer_init)) = Inr None
            \<and> contains telemetry_marker line
            \<and> (\<exists>digits. re_search_zone sample_lib line = Some digits
                  \<and> int_of_str sample_lib digits = Some g)} = {2}"
proof -
  have a: "tail_fp (viewer_tailing :: rat viewer)"
    by (simp add: viewer_tailing_def)
  have b: "read_text sample_lib (drop (tail_pos (viewer_tailing :: rat viewer)) line_cut_zone)
      = (line_cut_zone, False)"
    by (simp add: viewer_tailing_def viewer_init_def sample_read)
  from tail_guess_marks_zone [OF a b tick_line_cut_zone, of "series_by_zone viewer_init"]
  show ?thesis
    by (simp add: tick_line_cut_zone)
qed

subsection \<open>Times and values stay aligned\<close>

lemma aligned_upd:
  "series_aligned m \<Longrightarrow> length (t s) = length (pv s) \<Longrightarrow> series_aligned (m(z \<mapsto> s))"
  by (simp add: series_aligned_def)

lemma aligned_lookup: "series_aligned m \<Longrightarrow> m z = Some s \<Longrightarrow> length (t s) = length (pv s)"
  by (simp add: series_aligned_def)

lemma aligned_ensure_zone: "series_aligned m \<Longrightarrow> series_aligned (ensure_zone z m)"
  by (auto simp: ensure_zone_def ZoneSeries_new_def intro: aligned_upd split: option.split)

lemma aligned_ingest_event:
  assumes "series_aligned m"
  shows "series_aligned (snd (ingest_event obj m))"
proof (cases "as_int (dict_get obj ''zone'')")
  case None
  with assms show ?thesis by (simp add: ingest_event_def)
next
  case (Some z)
  have a: "series_aligned (ensure_zone z m)" using assms by (rule aligned_ensure_zone)
  obtain s where s: "ensure_zone z m z = Some s" using ensure_zone_same by blast
  from aligned_lookup [OF a s] have "length (t s) = length (pv s)" .
  then have "series_aligned ((ensure_zone z m)(z \<mapsto> s\<lparr>last_autotune_sp := event_sp obj\<rparr>))"
    using a by (intro aligned_upd) simp_all
  with Some a s show ?thesis
    by (simp add: ingest_event_def Let_def)
qed

lemma aligned_ingest_telemetry:
  assumes "series_aligned m"
  shows "series_aligned (snd (ingest_telemetry lib obj z m))"
proof -
  have a: "series_aligned (ensure_zone z m)" using assms by (rule aligned_ensure_zone)
  obtain s where s: "ensure_zone z m z = Some s" using ensure_zone_same by blast
  from aligned_lookup [OF a s] have l: "length (t s) = length (pv s)" .
  show ?thesis
    using a s l
    by (auto simp: ingest_telemetry_def Let_def intro!: aligned_upd split: option.split)
qed

lemma aligned_ingest_obj:
  "series_aligned m \<Longrightarrow> series_aligned (snd (ingest_obj lib obj m))"
  by (simp add: ingest_obj_def Let_def aligned_ingest_event aligned_ingest_telemetry
      split: option.split)

lemma aligned_ingest_line:
  "series_aligned m \<Longrightarrow> series_aligned (snd (ingest_line lib line m))"
  by (simp add: ingest_line_def Let_def aligned_ingest_obj split: option.split json.split)

lemma aligned_load_loop:
  "series_aligned m \<Longrightarrow> series_aligned (snd (load_loop lib lines n_lines n_tel m))"
proof (induction lines arbitrary: n_lines n_tel m)
  case Nil
  then show ?case by simp
next
  case (Cons line rest)
  obtain r m1 where il: "ingest_line lib line m = (r, m1)" by (cases "ingest_line lib line m")
  with aligned_ingest_line [OF Cons.prems, of lib line] have "series_aligned m1" by simp
  with Cons.IH il show ?case
    by (cases r) (simp_all add: Let_def)
qed

lemma aligned_tail_loop:
  "series_aligned m \<Longrightarrow> series_aligned (snd (tail_loop lib lines zs m))"
proof (induction lines arbitrary: zs m)
  case Nil
  then show ?case by simp
next
  case (Cons line rest)
  obtain r m1 where il: "ingest_line lib line m = (r, m1)" by (cases "ingest_line lib line m")
  with aligned_ingest_line [OF Cons.prems, of lib line] have "series_aligned m1" by simp
  with Cons.IH il show ?case
    by (cases r) (simp_all add: Let_def split: option.split)
qed

lemma aligned_on_clear: "series_aligned m \<Longrightarrow> series_aligned (on_clear z m)"
  by (auto simp: on_clear_def clear_trace_def intro: aligned_upd split: option.split)

lemma aligned_reset:
  "series_aligned (\<lambda>z. map_option reset_series (m z))"
  by (auto simp: series_aligned_def reset_series_def clear_trace_def)

lemma aligned_open_log:
  "series_aligned (series_by_zone st) \<Longrightarrow> series_aligned (series_by_zone (open_log lib file st))"
proof (cases "file")
  case None
  assume "series_aligned (series_by_zone st)"
  with None show ?thesis by (simp add: open_log_def)
next
  case (Some content)
  let ?m0 = "\<lambda>z. map_option reset_series (series_by_zone st z)"
  obtain tx raised where rt: "read_text lib content = (tx, raised)"
    by (cases "read_text lib content")
  obtain r m1 where ll: "load_loop lib (split_lines tx) 0 0 ?m0 = (r, m1)"
    by (cases "load_loop lib (split_lines tx) 0 0 ?m0")
  from aligned_load_loop [OF aligned_reset, of lib "split_lines tx" 0 0 "series_by_zone st"] ll
  have "series_aligned m1" by simp
  with Some rt ll show ?thesis
    by (cases r) (simp_all add: open_log_def split: prod.split)
qed

lemma aligned_tail_tick:
  assumes "series_aligned (series_by_zone st)"
  shows "series_aligned (series_by_zone (snd (tail_tick lib content st)))"
proof -
  obtain tx raised where rt: "read_text lib (drop (tail_pos st) content) = (tx, raised)"
    by (cases "read_text lib (drop (tail_pos st) content)")
  obtain r m1 where tl: "tail_loop lib (split_lines tx) {} (series_by_zone st) = (r, m1)"
    by (cases "tail_loop lib (split_lines tx) {} (series_by_zone st)")
  from aligned_tail_loop [OF assms, of lib "split_lines tx" "{}"] tl
  have "series_aligned m1" by simp
  with assms rt tl show ?thesis
    by (cases r) (simp_all add: tail_tick_def Let_def)
qed

lemma aligned_apply_action:
  "series_aligned (series_by_zone st) \<Longrightarrow> series_aligned (series_by_zone (apply_action lib st a))"
  by (cases a) (simp_all add: aligned_ingest_line aligned_on_clear aligned_open_log
      aligned_tail_tick)

lemma aligned_init: "series_aligned (series_by_zone viewer_init)"
  by (auto simp: series_aligned_def viewer_init_def DEFAULT_ZONES_def ZoneSeries_new_def
      split: if_splits)

lemma aligned_run:
  "series_aligned (series_by_zone st) \<Longrightarrow> series_aligned (series_by_zone (run lib st acts))"
  unfolding run_def
  by (induction acts arbitrary: st) (simp_all add: aligned_apply_action)


text \<open>
  Claim C10: for every zone, after any sequence of operations from start-up (ingesting
  a line, telemetry or event; clearing a trace; a full load with its reset; a tail
  tick), the list of times and the list of values of the zone's series have the same
  length.
\<close>

theorem series_lengths_equal:
  assumes "series_by_zone (run lib viewer_init acts) z = Some s"
  shows "length (t s) = length (pv s)"
  using aligned_run [OF aligned_init, of lib acts] assms
  by (rule aligned_lookup)

subsection \<open>The scenario of the specification\<close>

lemma ingest_tel1:
  assumes "json_loads lib line_tel1 = Some (JObj obj_tel1)"
    and "float_of_int lib 1700000000 = Some (Finite 1700000000)"
    and "fromtimestamp lib (Finite 1700000000) = Some d1"
    and "ensure_zone 1 m 1 = Some s"
  shows "ingest_line lib line_tel1 m =
     (Inr (Some 1), (ensure_zone 1 m)(1 \<mapsto> s\<lparr>t := t s @ [d1], pv := pv s @ [Finite (145 / 2)],
        last_pv := JFloat (Finite (145 / 2)), last_sp := JFloat (Finite 75),
        last_out := JFloat (Finite 40), last_method := JStr ''PID'', last_mode := JStr ''AUTO'',
        last_autotune := JBool False, last_autotune_sp := last_autotune_sp s\<rparr>))"
proof -
  have rt: "resolve_time lib obj_tel1 = Some d1"
    using assms(2,3)
    by (simp add: resolve_time_def obj_tel1_def dict_get_def dict_get_default_def
        epoch_to_dt_local_def)
  have "ingest_obj lib obj_tel1 m = ingest_telemetry lib obj_tel1 1 m"
    by (simp add: ingest_obj_def obj_tel1_def dict_get_def dict_get_default_def)
  also have "\<dots> = (Inr (Some 1), (ensure_zone 1 m)(1 \<mapsto> s\<lparr>t := t s @ [d1],
        pv := pv s @ [Finite (145 / 2)],
        last_pv := JFloat (Finite (145 / 2)), last_sp := JFloat (Finite 75),
        last_out := JFloat (Finite 40), last_method := JStr ''PID'', last_mode := JStr ''AUTO'',
        last_autotune := JBool False, last_autotune_sp := last_autotune_sp s\<rparr>))"
    using assms(4) rt
    by (simp add: ingest_telemetry_def Let_def)
       (simp add: obj_tel1_def dict_get_def dict_get_default_def pv_value_def telemetry_sp_def
        py_or_def)
  finally show ?thesis
    using assms(1) by (simp add: ingest_line_def strip_sample sample_nonempty)
qed

lemma ingest_tel2:
  assumes "json_loads lib line_tel2 = Some (JObj obj_tel2)"
    and "float_of_int lib 1700000010 = Some (Finite 1700000010)"
    and "fromtimestamp lib (Finite 1700000010) = Some d2"
    and "ensure_zone 1 m 1 = Some s"
  shows "ingest_line lib line_tel2 m =
     (Inr (Some 1), (ensure_zone 1 m)(1 \<mapsto> s\<lparr>t := t s @ [d2], pv := pv s @ [double_73_1],
        last_pv := JFloat double_73_1, last_sp := JFloat (Finite 75),
        last_out := JFloat (Finite 38), last_method := JStr ''PID'', last_mode := JStr ''AUTO'',
        last_autotune := JBool False, last_autotune_sp := last_autotune_sp s\<rparr>))"
proof -
  have rt: "resolve_time lib obj_tel2 = Some d2"
    using assms(2,3)
    by (simp add: resolve_time_def obj_tel2_def dict_get_def dict_get_default_def
        epoch_to_dt_local_def)
  have nn: "\<not> is_nan (JFloat double_73_1)" by (simp add: double_73_1_def)
  have "ingest_obj lib obj_tel2 m = ingest_telemetry lib obj_tel2 1 m"
    by (simp add: ingest_obj_def obj_tel2_def dict_get_def dict_get_default_def)
  also have "\<dots> = (Inr (Some 1), (ensure_zone 1 m)(1 \<mapsto> s\<lparr>t := t s @ [d2],
        pv := pv s @ [double_73_1],
        last_pv := JFloat double_73_1, last_sp := JFloat (Finite 75),
        last_out := JFloat (Finite 38), last_method := JStr ''PID'', last_mode := JStr ''AUTO'',
        last_autotune := JBool False, last_autotune_sp := last_autotune_sp s\<rparr>))"
    using assms(4) rt nn
    by (simp add: ingest_telemetry_def Let_def)
       (simp add: obj_tel2_def dict_get_def dict_get_default_def pv_value_def telemetry_sp_def
        py_or_def)
  finally show ?thesis
    using assms(1) by (simp add: ingest_line_def strip_sample sample_nonempty)
qed

lemma ingest_ev:
  assumes "json_loads lib line_ev = Some (JObj obj_ev)"
    and "ensure_zone 1 m 1 = Some s"
  shows "ingest_line lib line_ev m =
     (Inr None, (ensure_zone 1 m)(1 \<mapsto> s\<lparr>last_autotune_sp := JFloat (Finite 80)\<rparr>))"
proof -
  have "ingest_obj lib obj_ev m =
      (Inr None, (ensure_zone 1 m)(1 \<mapsto> s\<lparr>last_autotune_sp := JFloat (Finite 80)\<rparr>))"
    using assms(2)
    by (simp add: ingest_obj_def ingest_event_def obj_ev_def dict_get_def dict_get_default_def
        event_sp_def py_or_def)
  then show ?thesis
    using assms(1) by (simp add: ingest_line_def strip_sample sample_nonempty)
qed

lemma ensure_zone_upd: "ensure_zone z (m(z \<mapsto> s)) = m(z \<mapsto> s)"
  by (simp add: ensure_zone_def)


text \<open>
  Claim C8: from an empty zone 1, ingesting the two telemetry lines of epochs 1700000000
  and 1700000010 with values 72.5 and 73.1, then the event with
  \<^verbatim>\<open>autotune_setpoint_c = 80.0\<close>, gives zone 1 the series of these two points, the last
  PV 73.1 and the autotune setpoint 80.0. The hypotheses say what the library does on
  the three lines and the two epochs; \<open>d1\<close> and \<open>d2\<close> are the \<^verbatim>\<open>datetime\<close> values of
  the epochs.
\<close>

theorem scenario:
  assumes l1: "json_loads lib line_tel1 = Some (JObj obj_tel1)"
    and l2: "json_loads lib line_tel2 = Some (JObj obj_tel2)"
    and l3: "json_loads lib line_ev = Some (JObj obj_ev)"
    and f1: "float_of_int lib 1700000000 = Some (Finite 1700000000)"
    and f2: "float_of_int lib 1700000010 = Some (Finite 1700000010)"
    and t1: "fromtimestamp lib (Finite 1700000000) = Some d1"
    and t2: "fromtimestamp lib (Finite 1700000010) = Some d2"
    and empty: "ensure_zone 1 (series_by_zone st) 1 = Some (ZoneSeries_new 1)"
  shows "\<exists>s. series_by_zone
               (run lib st [IngestLine line_tel1, IngestLine line_tel2, IngestLine line_ev]) 1
             = Some s
           \<and> t s = [d1, d2]
           \<and> pv s = [Finite (145 / 2), double_73_1]
           \<and> last_pv s = JFloat double_73_1
           \<and> last_autotune_sp s = JFloat (Finite 80)"
proof -
  let ?m0 = "series_by_zone st"
  obtain s1 m1 where m1: "snd (ingest_line lib line_tel1 ?m0) = m1" "m1 = (ensure_zone 1 ?m0)(1 \<mapsto> s1)"
    and s1: "t s1 = [d1]" "pv s1 = [Finite (145 / 2)]"
    using ingest_tel1 [OF l1 f1 t1 empty] by (simp add: ZoneSeries_new_def)
  have e1: "ensure_zone 1 m1 1 = Some s1" by (simp add: m1(2) ensure_zone_upd)
  obtain s2 m2 where m2: "snd (ingest_line lib line_tel2 m1) = m2" "m2 = (ensure_zone 1 m1)(1 \<mapsto> s2)"
    and s2: "t s2 = [d1, d2]" "pv s2 = [Finite (145 / 2), double_73_1]"
      "last_pv s2 = JFloat double_73_1"
    using ingest_tel2 [OF l2 f2 t2 e1] s1 by simp
  have e2: "ensure_zone 1 m2 1 = Some s2" by (simp add: m2(2) ensure_zone_upd)
  let ?s3 = "s2\<lparr>last_autotune_sp := JFloat (Finite 80)\<rparr>"
  have m3: "snd (ingest_line lib line_ev m2) 1 = Some ?s3"
    using ingest_ev [OF l3 e2] by simp
  have "series_by_zone
          (run lib st [IngestLine line_tel1, IngestLine line_tel2, IngestLine line_ev]) 1
        = Some ?s3"
    using m1(1) m2(1) m3 by (simp add: run_def)
  with s2 show ?thesis by simp
qed


theorem scenario_witness:
  "\<exists>s. series_by_zone
          (run sample_lib viewer_init
             [IngestLine line_tel1, IngestLine line_tel2, IngestLine line_ev]) 1 = Some s
      \<and> t s = [1700000000, 1700000010]
      \<and> pv s = [Finite (145 / 2), double_73_1]
      \<and> last_pv s = JFloat double_73_1
      \<and> last_autotune_sp s = JFloat (Finite 80)"
proof -
  have "ensure_zone 1 (series_by_zone viewer_init) 1 = Some (ZoneSeries_new 1 :: rat ZoneSeries)"
    by (simp add: ensure_zone_def zones0_1)
  from scenario [OF sample_loads(1,2,3) sample_conv this]
  show ?thesis .
qed


theorem series_lengths_equal_witness:
  "\<exists>s. series_by_zone (run sample_lib viewer_init [IngestLine line_tel1]) 1 = Some s
      \<and> t s = [1700000000] \<and> length (pv s) = 1"
proof -
  have "ensure_zone 1 (series_by_zone viewer_init) 1 = Some (ZoneSeries_new 1 :: rat ZoneSeries)"
    by (simp add: ensure_zone_def zones0_1)
  from ingest_tel1 [OF sample_loads(1) sample_conv(1) sample_conv(3) this]
  obtain s where s: "series_by_zone (run sample_lib viewer_init [IngestLine line_tel1]) 1 = Some s"
    and ts: "t s = [1700000000]"
    by (simp add: run_def ZoneSeries_new_def)
  from series_lengths_equal [OF s] ts have "length (pv s) = 1" by simp
  with s ts show ?thesis by simp
qed

end
